theory Spec2Isabelle
  imports Main
begin

section \<open>Python string operations used by the store\<close>

text \<open>
  \<open>startswith s p\<close> is Python's \<open>s.startswith(p)\<close>; \<open>contains s sub\<close> is \<open>sub in s\<close>.
\<close>

fun startswith :: "'a list \<Rightarrow> 'a list \<Rightarrow> bool" where
  "startswith s [] = True"
| "startswith [] (p # ps) = False"
| "startswith (c # cs) (p # ps) = (c = p \<and> startswith cs ps)"

fun contains :: "'a list \<Rightarrow> 'a list \<Rightarrow> bool" where
  "contains [] sub = startswith [] sub"
| "contains (c # cs) sub = (startswith (c # cs) sub \<or> contains cs sub)"

text \<open>
  \<open>s.replace(old, new)\<close>: the occurrences of \<open>old\<close> are found from left to right and do
  not overlap; each is replaced by \<open>new\<close>. \<open>replace_from\<close> is the scan for a non-empty
  \<open>old\<close>; with an empty \<open>old\<close> Python puts \<open>new\<close> before every character and at the end.
\<close>

fun replace_from :: "'a list \<Rightarrow> 'a list \<Rightarrow> 'a list \<Rightarrow> 'a list" where
  "replace_from old new [] = []"
| "replace_from old new (c # cs) =
     (if startswith (c # cs) old
      then new @ replace_from old new (drop (length old - 1) cs)
      else c # replace_from old new cs)"

definition py_replace :: "'a list \<Rightarrow> 'a list \<Rightarrow> 'a list \<Rightarrow> 'a list" where
  "py_replace s old new =
     (if old = [] then new @ concat (map (\<lambda>c. c # new) s) else replace_from old new s)"

text \<open>
  \<open>s.split(sep)\<close> for a non-empty separator: the pieces between the occurrences of
  \<open>sep\<close>, found from left to right; the result always has at least one piece. (The only
  call passes the literal \<open>.parquet\<close>; an empty separator raises in Python.)
\<close>

fun split_from :: "'a list \<Rightarrow> 'a list \<Rightarrow> 'a list \<Rightarrow> 'a list list" where
  "split_from sep acc [] = [acc]"
| "split_from sep acc (c # cs) =
     (if startswith (c # cs) sep
      then acc # split_from sep [] (drop (length sep - 1) cs)
      else split_from sep (acc @ [c]) cs)"

definition py_split :: "'a list \<Rightarrow> 'a list \<Rightarrow> 'a list list" where
  "py_split s sep = split_from sep [] s"

definition quoted :: "string \<Rightarrow> string" where
  "quoted s = CHR 0x27 # s @ [CHR 0x27]"

section \<open>Exceptions, log records, tables\<close>

datatype level = INFO | WARNING | ERROR | CRITICAL

type_synonym log_record = "level \<times> string"

text \<open>
  A botocore \<open>ClientError\<close> carries its response, a dictionary of dictionaries such as
  \<open>{"Error": {"Code": "NoSuchBucket"}}\<close>, and the operation name. \<open>NoFilesFound\<close> is
  awswrangler's exception (not a \<open>ClientError\<close>); \<open>OtherException\<close> stands for any other
  subclass of \<open>Exception\<close>.
\<close>

type_synonym error_response = "(string \<times> (string \<times> string) list) list"

datatype exn =
    ClientError error_response string
  | NoFilesFound string
  | ValueError string
  | KeyError string
  | OtherException string

text \<open>
  A table is its column labels, in order, and its rows; the row index of pandas is not
  modelled. A cell is a string, an integer or a timestamp.
\<close>

datatype cell = SVal string | IVal int | TVal int

record dataframe =
  columns :: "cell list"
  rows :: "cell list list"

record series =
  sname :: "cell option"
  svalues :: "cell list"

definition empty_dataframe :: dataframe where
  "empty_dataframe = \<lparr>columns = [], rows = []\<rparr>"

text \<open>\<open>Series.to_frame()\<close>: one column, labelled by the series' name (0 when it has none).\<close>

definition to_frame :: "series \<Rightarrow> dataframe" where
  "to_frame sr =
     \<lparr>columns = [case sname sr of None \<Rightarrow> IVal 0 | Some n \<Rightarrow> n],
      rows = map (\<lambda>v. [v]) (svalues sr)\<rparr>"

text \<open>What a caller can pass as \<open>data\<close>: a DataFrame, a Series, or any other object.\<close>

datatype payload = DataFrame dataframe | Series series | OtherObject string

section \<open>The remote layer\<close>

text \<open>
  The calls the store makes on awswrangler and on the boto3 S3 client, over a remote
  state \<open>'s\<close>. A call that raises returns \<open>Inl\<close>; a writing call also returns the state
  it leaves. \<open>list_objects_v2\<close> returns the response's \<open>Contents\<close> (\<open>None\<close> when the
  response has no such key). \<open>exn_str\<close> is \<open>str(e)\<close>, used in log messages.
\<close>

record s3_object =
  Key :: string
  Size :: int
  LastModified :: int

record 's aws =
  read_parquet :: "'s \<Rightarrow> string \<Rightarrow> exn + dataframe"
  to_parquet :: "'s \<Rightarrow> dataframe \<Rightarrow> string \<Rightarrow> (exn + unit) \<times> 's"
  list_objects :: "'s \<Rightarrow> string \<Rightarrow> exn + string list"
  delete_objects :: "'s \<Rightarrow> string \<Rightarrow> (exn + unit) \<times> 's"
  list_objects_v2 :: "'s \<Rightarrow> string \<Rightarrow> string \<Rightarrow> exn + s3_object list option"
  exn_str :: "exn \<Rightarrow> string"

section \<open>DFStore\<close>

record dfstore =
  df_bucket :: string
  prefix :: string

text \<open>
  \<open>__init__\<close>: the bucket is the argument when it is given and not empty, otherwise the
  value of the parameter store (the second argument here); the prefix is fixed.
\<close>

definition param_key :: string where
  "param_key = ''/workbench/config/workbench_bucket''"

definition DFStore_init :: "string option \<Rightarrow> string option \<Rightarrow> exn + dfstore" where
  "DFStore_init s3_df_bucket param =
     (case (case s3_df_bucket of
              Some b \<Rightarrow> if b \<noteq> [] then Some b else param
            | None \<Rightarrow> param) of
        None \<Rightarrow> Inl (ValueError (''Either specify S3 Bucket or set '' @ quoted param_key
                  @ '' in Parameter Store.''))
      | Some b \<Rightarrow> Inr \<lparr>df_bucket = b, prefix = ''df_store/''\<rparr>)"

definition generate_s3_uri :: "dfstore \<Rightarrow> string \<Rightarrow> string" where
  "generate_s3_uri st name =
     ''s3://'' @ py_replace (df_bucket st @ ''/'' @ prefix st @ name @ ''.parquet'') ''//'' ''/''"

text \<open>The two strings \<open>details\<close> computes for a listed key.\<close>

definition details_name :: "dfstore \<Rightarrow> string \<Rightarrow> string" where
  "details_name st full_key = hd (py_split (py_replace full_key (prefix st) ''/'') ''.parquet'')"

definition s3_file :: "dfstore \<Rightarrow> string \<Rightarrow> string" where
  "s3_file st full_key = ''s3://'' @ df_bucket st @ ''/'' @ full_key"

text \<open>
  The object key of a name: its URI without the scheme, the bucket and the slash after
  it. (\<open>s3_file\<close> builds the URI of a listed key the other way round.)
\<close>

definition storage_key :: "dfstore \<Rightarrow> string \<Rightarrow> string" where
  "storage_key st name =
     drop (length (''s3://'' @ df_bucket st @ ''/'')) (generate_s3_uri st name)"

definition details :: "'s aws \<Rightarrow> dfstore \<Rightarrow> 's \<Rightarrow> log_record list \<times> dataframe" where
  "details remote st s =
     (case list_objects_v2 remote s (df_bucket st) (prefix st) of
        Inl e \<Rightarrow>
          ([(ERROR, ''Failed to get object details: '' @ exn_str remote e)],
           \<lparr>columns = [SVal ''name'', SVal ''s3_file'', SVal ''size'', SVal ''created'',
                        SVal ''modified''],
            rows = []\<rparr>)
      | Inr None \<Rightarrow>
          ([], \<lparr>columns = [SVal ''name'', SVal ''s3_file'', SVal ''size'', SVal ''modified''],
                rows = []\<rparr>)
      | Inr (Some contents) \<Rightarrow>
          ([], \<lparr>columns = [SVal ''name'', SVal ''s3_file'', SVal ''size'', SVal ''modified''],
                rows = map (\<lambda>obj. [SVal (details_name st (Key obj)),
                                      SVal (s3_file st (Key obj)),
                                      IVal (Size obj), TVal (LastModified obj)]) contents\<rparr>))"

definition get :: "'s aws \<Rightarrow> dfstore \<Rightarrow> 's \<Rightarrow> string \<Rightarrow> log_record list \<times> (exn + dataframe)" where
  "get remote st s name =
     (case read_parquet remote s (generate_s3_uri st name) of
        Inr df \<Rightarrow> ([], Inr df)
      | Inl (ClientError r opn) \<Rightarrow>
          ([(WARNING, ''Data '' @ quoted name @ '' not found in S3.'')], Inr empty_dataframe)
      | Inl e \<Rightarrow> ([], Inl e))"

definition upsert ::
  "'s aws \<Rightarrow> dfstore \<Rightarrow> 's \<Rightarrow> string \<Rightarrow> payload \<Rightarrow> log_record list \<times> (exn + unit) \<times> 's" where
  "upsert remote st s name data =
     (case (case data of Series sr \<Rightarrow> DataFrame (to_frame sr) | d \<Rightarrow> d) of
        DataFrame df \<Rightarrow>
          (case to_parquet remote s df (generate_s3_uri st name) of
             (Inr u, s') \<Rightarrow>
               ([(INFO, ''Data '' @ quoted name @ '' added/updated successfully in S3.'')],
                Inr (), s')
           | (Inl e, s') \<Rightarrow>
               ([(CRITICAL, ''Failed to add/update data '' @ quoted name @ '': ''
                    @ exn_str remote e)],
                Inl e, s'))
      | _ \<Rightarrow> ([], Inl (ValueError ''Only Pandas DataFrame or Series objects are supported.''), s))"

definition delete ::
  "'s aws \<Rightarrow> dfstore \<Rightarrow> 's \<Rightarrow> string \<Rightarrow> log_record list \<times> (exn + unit) \<times> 's" where
  "delete remote st s name =
     (case list_objects remote s (generate_s3_uri st name) of
        Inl e \<Rightarrow> ([], Inl e, s)
      | Inr objs \<Rightarrow>
          if objs = []
          then ([(WARNING, ''Data '' @ quoted name @ '' does not exist in S3. Cannot delete.'')],
                Inr (), s)
          else (case delete_objects remote s (generate_s3_uri st name) of
                  (Inr u, s') \<Rightarrow>
                    ([(INFO, ''Data '' @ quoted name @ '' deleted successfully from S3.'')],
                     Inr (), s')
                | (Inl e, s') \<Rightarrow>
                    ([(ERROR, ''Failed to delete data '' @ quoted name @ '': ''
                         @ exn_str remote e)],
                     Inr (), s')))"

section \<open>The not-found wrapper\<close>

definition not_found_errors :: "string list" where
  "not_found_errors =
     [''ResourceNotFound'', ''ResourceNotFoundException'', ''EntityNotFoundException'',
      ''ValidationException'', ''NoSuchBucket'']"

text \<open>\<open>error.response["Error"]["Code"]\<close>; a missing key raises \<open>KeyError\<close>.\<close>

definition error_code :: "error_response \<Rightarrow> exn + string" where
  "error_code r =
     (case map_of r ''Error'' of
        None \<Rightarrow> Inl (KeyError ''Error'')
      | Some d \<Rightarrow> (case map_of d ''Code'' of
                    None \<Rightarrow> Inl (KeyError ''Code'')
                  | Some c \<Rightarrow> Inr c))"

text \<open>
  The wrapper the decorator builds around \<open>inner_func\<close>. A Python value that may be
  \<open>None\<close> is an \<open>option\<close>: the wrapped function returns \<open>'b option\<close>, and so does the wrapper.
\<close>

definition not_found_returns_none ::
  "string \<Rightarrow> ('a \<Rightarrow> exn + 'b option) \<Rightarrow> 'a \<Rightarrow> log_record list \<times> (exn + 'b option)" where
  "not_found_returns_none resource_name inner_func args =
     (case inner_func args of
        Inr v \<Rightarrow> ([], Inr v)
      | Inl (ClientError r opn) \<Rightarrow>
          (case error_code r of
             Inl k \<Rightarrow> ([], Inl k)
           | Inr code \<Rightarrow>
               if code \<in> set not_found_errors
               then ([(WARNING, resource_name @ '' not found: '' @ code @ '', returning None...'')],
                     Inr None)
               else ([(CRITICAL, ''Critical error in AWS call: '' @ code)],
                     Inl (ClientError r opn)))
      | Inl (NoFilesFound m) \<Rightarrow>
          ([(INFO, ''Resource '' @ resource_name @ '' not found returning None...'')], Inr None)
      | Inl e \<Rightarrow> ([], Inl e))"

definition default_resource_name :: string where
  "default_resource_name = ''AWS resource''"

section \<open>Concrete remotes and inputs, for evaluating the operations\<close>

text \<open>
  Modelled from the spec: the remote object store and the table codec (awswrangler and
  S3, which are not part of the repository). The spec has a store with one object per
  key, written with overwrite semantics, read back or reported not found, deleted by
  prefix and listed by prefix, and a codec that is lossless. \<open>memory_remote absent\<close> keeps
  the tables in an association list keyed by URI: a write replaces what is stored under
  the URI, a deletion removes every URI that starts with the given one, and reading a
  URI that is not stored raises \<open>absent uri\<close>. \<open>failing_remote e\<close> raises \<open>e\<close> at every call
  and leaves the state as it is.
\<close>

definition message_of :: "exn \<Rightarrow> string" where
  "message_of e =
     (case e of ClientError r opn \<Rightarrow> opn | NoFilesFound m \<Rightarrow> m | ValueError m \<Rightarrow> m
      | KeyError m \<Rightarrow> m | OtherException m \<Rightarrow> m)"

definition failing_remote :: "exn \<Rightarrow> 's aws" where
  "failing_remote e =
     \<lparr>read_parquet = (\<lambda>s uri. Inl e),
      to_parquet = (\<lambda>s df uri. (Inl e, s)),
      list_objects = (\<lambda>s uri. Inl e),
      delete_objects = (\<lambda>s uri. (Inl e, s)),
      list_objects_v2 = (\<lambda>s bucket pfx. Inl e),
      exn_str = message_of\<rparr>"

definition memory_remote :: "(string \<Rightarrow> exn) \<Rightarrow> (string \<times> dataframe) list aws" where
  "memory_remote absent =
     \<lparr>read_parquet = (\<lambda>s uri. case map_of s uri of None \<Rightarrow> Inl (absent uri) | Some df \<Rightarrow> Inr df),
      to_parquet = (\<lambda>s df uri. (Inr (), (uri, df) # filter (\<lambda>kv. fst kv \<noteq> uri) s)),
      list_objects = (\<lambda>s uri. Inr (filter (\<lambda>k. startswith k uri) (map fst s))),
      delete_objects = (\<lambda>s uri. (Inr (), filter (\<lambda>kv. \<not> startswith (fst kv) uri) s)),
      list_objects_v2 = (\<lambda>s bucket pfx.
        case filter (\<lambda>k. startswith k (''s3://'' @ bucket @ ''/'' @ pfx)) (map fst s) of
          [] \<Rightarrow> Inr None
        | k # ks \<Rightarrow> Inr (Some (map (\<lambda>k. \<lparr>Key = drop (length (''s3://'' @ bucket @ ''/'')) k,
                                         Size = 0, LastModified = 0\<rparr>) (k # ks)))),
      exn_str = message_of\<rparr>"

text \<open>A remote that lists and reads like \<open>memory_remote\<close> and refuses every deletion.\<close>

definition undeletable_remote :: "exn \<Rightarrow> (string \<times> dataframe) list aws" where
  "undeletable_remote e =
     (memory_remote (\<lambda>uri. e))\<lparr>delete_objects := (\<lambda>s uri. (Inl e, s))\<rparr>"

definition no_files_found :: "string \<Rightarrow> exn" where
  "no_files_found uri = NoFilesFound (''No files Found on: '' @ uri @ ''.'')"

definition no_such_key :: "string \<Rightarrow> exn" where
  "no_such_key uri = ClientError [(''Error'', [(''Code'', ''NoSuchKey'')])] ''GetObject''"

definition access_denied :: exn where
  "access_denied = ClientError [(''Error'', [(''Code'', ''AccessDenied'')])] ''GetObject''"

definition store0 :: dfstore where
  "store0 = \<lparr>df_bucket = ''bucket'', prefix = ''df_store/''\<rparr>"

definition table0 :: dataframe where
  "table0 = \<lparr>columns = [SVal ''A'', SVal ''B''], rows = [[IVal 1, IVal 3], [IVal 2, IVal 4]]\<rparr>"

definition series0 :: series where
  "series0 = \<lparr>sname = Some (SVal ''Series''), svalues = [IVal 1, IVal 2, IVal 3, IVal 4]\<rparr>"

section \<open>Facts about the string operations\<close>

lemma startswith_iff: "startswith s p \<longleftrightarrow> (\<exists>t. s = p @ t)"
  by (induction s p rule: startswith.induct) auto

text \<open>\<open>split\<close> returns at least one piece, so the \<open>[0]\<close> in \<open>details\<close> cannot fail.\<close>

lemma split_from_not_empty: "split_from sep acc s \<noteq> []"
  by (induction sep acc s rule: split_from.induct) simp_all

lemma uri_test_data:
  "generate_s3_uri store0 ''test_data'' = ''s3://bucket/df_store/test_data.parquet''"
  by (simp add: generate_s3_uri_def store0_def py_replace_def)

lemma startswith_append_last:
  assumes "old \<noteq> []" "last old \<notin> set p"
  shows "startswith (s @ p) old \<longleftrightarrow> startswith s old"
proof
  assume "startswith (s @ p) old"
  then obtain t where "s @ p = old @ t" by (auto simp: startswith_iff)
  then obtain us where "(s = old @ us \<and> us @ p = t) \<or> (s @ us = old \<and> p = us @ t)"
    by (auto simp: append_eq_append_conv2)
  then show "startswith s old"
  proof
    assume "s = old @ us \<and> us @ p = t"
    then show ?thesis by (auto simp: startswith_iff)
  next
    assume h: "s @ us = old \<and> p = us @ t"
    show ?thesis
    proof (cases "us = []")
      case True
      with h show ?thesis by (auto simp: startswith_iff)
    next
      case False
      with h have "last old = last us" by auto
      with False h assms(2) show ?thesis by auto
    qed
  qed
next
  assume "startswith s old"
  then show "startswith (s @ p) old" by (auto simp: startswith_iff)
qed

lemma startswith_set: "startswith s sub \<Longrightarrow> set sub \<subseteq> set s"
  by (auto simp: startswith_iff)

lemma contains_set: "contains s sub \<Longrightarrow> set sub \<subseteq> set s"
  by (induction s) (auto dest!: startswith_set)

lemma contains_append_last:
  assumes "old \<noteq> []" "last old \<notin> set p"
  shows "contains (s @ p) old \<longleftrightarrow> contains s old"
proof (induction s)
  case Nil
  have "\<not> contains p old"
    using contains_set [of p old] last_in_set [OF assms(1)] assms(2) by auto
  with assms(1) show ?case by (cases old) auto
next
  case (Cons c s)
  have "startswith (c # s @ p) old \<longleftrightarrow> startswith (c # s) old"
    using startswith_append_last [OF assms, of "c # s"] by simp
  with Cons show ?case by simp
qed

lemma replace_from_id: "old \<noteq> [] \<Longrightarrow> \<not> contains s old \<Longrightarrow> replace_from old new s = s"
  by (induction s) auto

lemma replace_slashes_skip:
  "CHR ''/'' \<notin> set b \<Longrightarrow> replace_from ''//'' new (b @ v) = b @ replace_from ''//'' new v"
  by (induction b) auto

lemma startswith_straddle:
  assumes "hd sep \<notin> set (tl sep)" "startswith (t @ sep @ w) sep"
  shows "t = [] \<or> startswith t sep"
proof -
  from assms(2) obtain x where "t @ sep @ w = sep @ x" by (auto simp: startswith_iff)
  then obtain us where "(t = sep @ us \<and> us @ sep @ w = x) \<or> (t @ us = sep \<and> sep @ w = us @ x)"
    by (auto simp: append_eq_append_conv2)
  then show ?thesis
  proof
    assume "t = sep @ us \<and> us @ sep @ w = x"
    then show ?thesis by (auto simp: startswith_iff)
  next
    assume h: "t @ us = sep \<and> sep @ w = us @ x"
    show ?thesis
    proof (cases "t = [] \<or> us = []")
      case True
      with h show ?thesis by (auto simp: startswith_iff)
    next
      case False
      then have t: "t \<noteq> []" and us: "us \<noteq> []" by auto
      from h t have "sep \<noteq> []" by auto
      with h us have "hd us = hd sep" by (metis hd_append2)
      moreover from h t have "set us \<subseteq> set (tl sep)" by (cases t) auto
      ultimately have "hd sep \<in> set (tl sep)" using us by (metis hd_in_set subsetD)
      with assms(1) show ?thesis by simp
    qed
  qed
qed

lemma split_from_skip:
  assumes "sep \<noteq> []" "hd sep \<notin> set (tl sep)"
  shows "\<not> contains u sep \<Longrightarrow> split_from sep acc (u @ sep @ w) = (acc @ u) # split_from sep [] w"
proof (induction u arbitrary: acc)
  case Nil
  from assms(1) obtain c cs where "sep = c # cs" by (cases sep) auto
  then show ?case by (simp add: startswith_iff)
next
  case (Cons x u)
  then have a: "\<not> startswith (x # u) sep" and b: "\<not> contains u sep" by auto
  have "\<not> startswith ((x # u) @ sep @ w) sep"
    using startswith_straddle [OF assms(2), of "x # u" w] a by auto
  then have "split_from sep acc ((x # u) @ sep @ w) = split_from sep (acc @ [x]) (u @ sep @ w)"
    by simp
  with Cons.IH [OF b, of "acc @ [x]"] show ?case by simp
qed


lemma uri_of_slash_name:
  assumes "prefix st = ''df_store/''" "CHR ''/'' \<notin> set (df_bucket st)"
    and "\<not> contains (CHR ''/'' # r) ''//''"
  shows "generate_s3_uri st (CHR ''/'' # r)
           = ''s3://'' @ df_bucket st @ ''/'' @ ''df_store/'' @ r @ ''.parquet''"
proof -
  from assms(3) have "\<not> contains r ''//''" by simp
  then have "\<not> contains (r @ ''.parquet'') ''//''"
    by (simp add: contains_append_last)
  then have tail: "replace_from ''//'' ''/'' (r @ ''.parquet'') = r @ ''.parquet''"
    by (simp add: replace_from_id)
  have "py_replace (df_bucket st @ ''/'' @ prefix st @ (CHR ''/'' # r) @ ''.parquet'') ''//'' ''/''
          = replace_from ''//'' ''/'' (df_bucket st @ (''/df_store//'' @ r @ ''.parquet''))"
    by (simp add: py_replace_def assms(1))
  also have "\<dots> = df_bucket st @ replace_from ''//'' ''/'' (''/df_store//'' @ r @ ''.parquet'')"
    by (rule replace_slashes_skip [OF assms(2)])
  also have "replace_from ''//'' ''/'' (''/df_store//'' @ r @ ''.parquet'')
               = ''/df_store/'' @ replace_from ''//'' ''/'' (r @ ''.parquet'')"
    by simp
  finally show ?thesis
    by (simp add: generate_s3_uri_def tail)
qed

lemma name_of_key:
  assumes "prefix st = ''df_store/''"
    and "\<not> contains (CHR ''/'' # r) ''df_store/''" "\<not> contains (CHR ''/'' # r) ''.parquet''"
  shows "details_name st (''df_store/'' @ r @ ''.parquet'') = CHR ''/'' # r"
proof -
  from assms(2) have "\<not> contains r ''df_store/''" by simp
  then have "\<not> contains (r @ ''.parquet'') ''df_store/''"
    by (simp add: contains_append_last)
  then have "replace_from ''df_store/'' ''/'' (r @ ''.parquet'') = r @ ''.parquet''"
    by (simp add: replace_from_id)
  then have "py_replace (''df_store/'' @ r @ ''.parquet'') (prefix st) ''/''
               = (CHR ''/'' # r) @ ''.parquet'' @ []"
    by (simp add: py_replace_def assms(1))
  moreover have "split_from ''.parquet'' [] ((CHR ''/'' # r) @ ''.parquet'' @ [])
                   = ([] @ CHR ''/'' # r) # split_from ''.parquet'' [] []"
    by (rule split_from_skip) (use assms(3) in simp_all)
  ultimately show ?thesis
    by (simp add: details_name_def py_split_def)
qed

section \<open>The not-found wrapper\<close>

text \<open>
  C10. The wrapper is transparent on success: when the wrapped function returns a value,
  the wrapped call returns that value, unchanged, and logs nothing.
\<close>

theorem wrapper_transparent_on_success:
  "inner_func args = Inr v \<Longrightarrow>
   not_found_returns_none resource_name inner_func args = ([], Inr v)"
  by (simp add: not_found_returns_none_def)

theorem wrapper_transparent_on_success_witness:
  "not_found_returns_none default_resource_name (\<lambda>n. Inr (Some (n + 1))) (41::nat)
     = ([], Inr (Some 42))"
  using wrapper_transparent_on_success
    [of "\<lambda>n. Inr (Some (n + 1))" "41::nat" "Some 42" default_resource_name]
  by simp

text \<open>
  C4. When the wrapped call raises a \<open>ClientError\<close> whose code is one of the not-found
  codes, or raises \<open>NoFilesFound\<close>, the wrapped call returns \<open>None\<close>; when it raises a
  \<open>ClientError\<close> with any other code, that same error (same response, same operation)
  is raised again.
\<close>

theorem wrapper_classifies_errors:
  "(inner_func args = Inl (ClientError r opn) \<and> error_code r = Inr code
      \<and> code \<in> set not_found_errors
      \<longrightarrow> snd (not_found_returns_none resource_name inner_func args) = Inr None)
   \<and> (inner_func args = Inl (NoFilesFound m)
      \<longrightarrow> snd (not_found_returns_none resource_name inner_func args) = Inr None)
   \<and> (inner_func args = Inl (ClientError r opn) \<and> error_code r = Inr code
      \<and> code \<notin> set not_found_errors
      \<longrightarrow> snd (not_found_returns_none resource_name inner_func args)
            = Inl (ClientError r opn))"
  by (simp add: not_found_returns_none_def)

theorem wrapper_classifies_errors_witness:
  "snd (not_found_returns_none default_resource_name
          (\<lambda>u. Inl (ClientError [(''Error'', [(''Code'', ''ResourceNotFoundException'')])]
                     ''test'') :: exn + unit option) ()) = Inr None
   \<and> snd (not_found_returns_none ''my_not_found_resource''
          (\<lambda>u. Inl (no_files_found ''s3://bucket/x'') :: exn + unit option) ()) = Inr None
   \<and> snd (not_found_returns_none default_resource_name
          (\<lambda>u. Inl (ClientError [(''Error'', [(''Code'', ''SomeOtherError'')])] ''test'')
                 :: exn + unit option) ())
       = Inl (ClientError [(''Error'', [(''Code'', ''SomeOtherError'')])] ''test'')"
proof -
  have a: "error_code [(''Error'', [(''Code'', ''ResourceNotFoundException'')])]
             = Inr ''ResourceNotFoundException''"
    by (simp add: error_code_def)
  have b: "''ResourceNotFoundException'' \<in> set not_found_errors"
    by (simp add: not_found_errors_def)
  have c: "error_code [(''Error'', [(''Code'', ''SomeOtherError'')])] = Inr ''SomeOtherError''"
    by (simp add: error_code_def)
  have d: "''SomeOtherError'' \<notin> set not_found_errors"
    by (simp add: not_found_errors_def)
  show ?thesis
    using a b c d
      wrapper_classifies_errors
        [of "\<lambda>u. Inl (ClientError [(''Error'', [(''Code'', ''ResourceNotFoundException'')])]
                     ''test'') :: exn + unit option" "()"
            "[(''Error'', [(''Code'', ''ResourceNotFoundException'')])]" "''test''"
            "''ResourceNotFoundException''" default_resource_name]
      wrapper_classifies_errors
        [of "\<lambda>u. Inl (no_files_found ''s3://bucket/x'') :: exn + unit option" "()" _ _ _
            "''my_not_found_resource''" "''No files Found on: s3://bucket/x.''"]
      wrapper_classifies_errors
        [of "\<lambda>u. Inl (ClientError [(''Error'', [(''Code'', ''SomeOtherError'')])] ''test'')
                 :: exn + unit option" "()"
            "[(''Error'', [(''Code'', ''SomeOtherError'')])]" "''test''"
            "''SomeOtherError''" default_resource_name]
    by (simp add: no_files_found_def)
qed

section \<open>upsert\<close>

text \<open>
  C6. A payload that is neither a DataFrame nor a Series makes \<open>upsert\<close> raise
  \<open>ValueError\<close>: whatever the remote is, no call is made on it (the result does not
  depend on it), nothing is logged and the remote state is the one \<open>upsert\<close> was given.
\<close>

theorem upsert_rejects_other_payload:
  "upsert remote st s name (OtherObject x)
     = ([], Inl (ValueError ''Only Pandas DataFrame or Series objects are supported.''), s)"
  by (simp add: upsert_def)

text \<open>
  C5. When the remote write raises an error \<open>e\<close>, \<open>upsert\<close> logs one record at critical
  level and raises \<open>e\<close> itself, for a DataFrame payload and for a Series payload (written
  as its one-column frame).
\<close>

theorem upsert_reraises_write_failure:
  "(to_parquet remote s df (generate_s3_uri st name) = (Inl e, s')
      \<longrightarrow> upsert remote st s name (DataFrame df)
            = ([(CRITICAL, ''Failed to add/update data '' @ quoted name @ '': ''
                   @ exn_str remote e)], Inl e, s'))
   \<and> (to_parquet remote s (to_frame sr) (generate_s3_uri st name) = (Inl e, s')
      \<longrightarrow> upsert remote st s name (Series sr)
            = ([(CRITICAL, ''Failed to add/update data '' @ quoted name @ '': ''
                   @ exn_str remote e)], Inl e, s'))"
  by (simp add: upsert_def)

theorem upsert_reraises_write_failure_witness:
  "upsert (failing_remote access_denied) store0 () ''test_data'' (DataFrame table0)
     = ([(CRITICAL, ''Failed to add/update data '' @ quoted ''test_data'' @ '': GetObject'')],
        Inl access_denied, ())
   \<and> upsert (failing_remote access_denied) store0 () ''test_series'' (Series series0)
     = ([(CRITICAL, ''Failed to add/update data '' @ quoted ''test_series'' @ '': GetObject'')],
        Inl access_denied, ())"
proof -
  have msg: "exn_str (failing_remote access_denied :: unit aws) access_denied = ''GetObject''"
    by (simp add: failing_remote_def access_denied_def message_of_def)
  have w: "\<And>df uri. to_parquet (failing_remote access_denied) () df uri
             = (Inl access_denied, ())"
    by (simp add: failing_remote_def)
  show ?thesis
    using upsert_reraises_write_failure
        [of "failing_remote access_denied" "()" table0 store0 "''test_data''"
            access_denied "()" series0]
      upsert_reraises_write_failure
        [of "failing_remote access_denied" "()" table0 store0 "''test_series''"
            access_denied "()" series0]
    by (simp add: w msg)
qed

section \<open>get\<close>

text \<open>
  C1. Round trip. On the in-memory remote, for every store, every remote state (whatever
  is already stored, under this name or others), every name and every table \<open>T\<close>:
  \<open>upsert\<close> of \<open>T\<close> under the name returns normally after one info record, and \<open>get\<close> of
  the name on the state \<open>upsert\<close> leaves returns \<open>T\<close>, with the same column labels in the
  same order and the same rows, and logs nothing.
\<close>

theorem upsert_get_round_trip:
  "fst (upsert (memory_remote absent) st s name (DataFrame T))
     = [(INFO, ''Data '' @ quoted name @ '' added/updated successfully in S3.'')]
   \<and> fst (snd (upsert (memory_remote absent) st s name (DataFrame T))) = Inr ()
   \<and> get (memory_remote absent) st
         (snd (snd (upsert (memory_remote absent) st s name (DataFrame T)))) name
       = ([], Inr T)"
  by (simp add: upsert_def get_def memory_remote_def)

theorem upsert_get_round_trip_witness:
  "fst (snd (upsert (memory_remote no_files_found) store0
               [(''s3://bucket/df_store/test_data.parquet'', empty_dataframe)]
               ''test_data'' (DataFrame table0))) = Inr ()
   \<and> snd (snd (upsert (memory_remote no_files_found) store0
               [(''s3://bucket/df_store/test_data.parquet'', empty_dataframe)]
               ''test_data'' (DataFrame table0)))
       = [(''s3://bucket/df_store/test_data.parquet'', table0)]
   \<and> get (memory_remote no_files_found) store0
         [(''s3://bucket/df_store/test_data.parquet'', table0)] ''test_data''
       = ([], Inr table0)"
proof -
  have post: "snd (snd (upsert (memory_remote no_files_found) store0
                [(''s3://bucket/df_store/test_data.parquet'', empty_dataframe)]
                ''test_data'' (DataFrame table0)))
              = [(''s3://bucket/df_store/test_data.parquet'', table0)]"
    by (simp add: upsert_def memory_remote_def uri_test_data)
  show ?thesis
    using upsert_get_round_trip
      [of no_files_found store0
          "[(''s3://bucket/df_store/test_data.parquet'', empty_dataframe)]"
          "''test_data''" table0]
    by (simp add: post)
qed

text \<open>
  C8, as the code has it. \<open>get\<close> does not go through the not-found wrapper: its handler
  takes every \<open>ClientError\<close>, whatever the code in its response, logs one warning and
  returns the empty table.
\<close>

theorem get_returns_empty_on_client_error:
  "read_parquet remote s (generate_s3_uri st name) = Inl (ClientError r opn) \<Longrightarrow>
   get remote st s name
     = ([(WARNING, ''Data '' @ quoted name @ '' not found in S3.'')], Inr empty_dataframe)"
  by (simp add: get_def)

theorem get_returns_empty_on_client_error_witness:
  "get (memory_remote no_such_key) store0 [] ''test_data''
     = ([(WARNING, ''Data '' @ quoted ''test_data'' @ '' not found in S3.'')],
        Inr empty_dataframe)"
proof -
  have "read_parquet (memory_remote no_such_key) [] (generate_s3_uri store0 ''test_data'')
          = Inl (ClientError [(''Error'', [(''Code'', ''NoSuchKey'')])] ''GetObject'')"
    by (simp add: memory_remote_def no_such_key_def)
  from get_returns_empty_on_client_error [OF this] show ?thesis .
qed

text \<open>
  C8 as stated fails: the code \<open>AccessDenied\<close> is not a not-found code, and a read that
  raises a \<open>ClientError\<close> with it makes \<open>get\<close> return the empty table after a warning,
  where the claim has the error raised again after a critical record.
\<close>

theorem get_access_denied_counterexample:
  "error_code [(''Error'', [(''Code'', ''AccessDenied'')])] = Inr ''AccessDenied''
   \<and> ''AccessDenied'' \<notin> set not_found_errors
   \<and> get (failing_remote access_denied) store0 () ''test_data''
       = ([(WARNING, ''Data '' @ quoted ''test_data'' @ '' not found in S3.'')],
          Inr empty_dataframe)"
  by (simp add: error_code_def not_found_errors_def get_def failing_remote_def
      access_denied_def)

text \<open>
  C2 at the input where it fails. awswrangler signals that nothing is stored under a
  path with \<open>NoFilesFound\<close>, which is not a \<open>ClientError\<close>: on a store where nothing was
  ever written, \<open>get\<close> raises it instead of returning the empty table.
\<close>

theorem get_never_written_raises_no_files_found:
  "get (memory_remote no_files_found) store0 [] ''test_data''
     = ([], Inl (NoFilesFound ''No files Found on: s3://bucket/df_store/test_data.parquet.''))"
  by (simp add: get_def memory_remote_def no_files_found_def generate_s3_uri_def store0_def
      py_replace_def)

section \<open>details\<close>

text \<open>
  C9 at the input where it fails. When the listing raises, \<open>details\<close> logs an error and
  returns a table with no rows and five columns, \<open>created\<close> among them; on a store where
  nothing was written (the listing has no \<open>Contents\<close>) it returns no rows and the four
  columns of a listing that succeeds.
\<close>

theorem details_failure_has_other_columns:
  "details (failing_remote access_denied) store0 ()
     = ([(ERROR, ''Failed to get object details: GetObject'')],
        \<lparr>columns = [SVal ''name'', SVal ''s3_file'', SVal ''size'', SVal ''created'',
                     SVal ''modified''], rows = []\<rparr>)
   \<and> details (memory_remote no_files_found) store0 []
     = ([], \<lparr>columns = [SVal ''name'', SVal ''s3_file'', SVal ''size'', SVal ''modified''],
             rows = []\<rparr>)"
  by (simp add: details_def failing_remote_def memory_remote_def access_denied_def
      message_of_def)

section \<open>delete\<close>

text \<open>
  C7, as the code has it. The existence listing is made outside the handler: an error it
  raises is raised by \<open>delete\<close>, with nothing logged and the state unchanged. When the
  listing returns, \<open>delete\<close> does not raise: with an empty listing it logs a warning and
  leaves the state unchanged; with a non-empty listing it calls the remote deletion on
  the URI of the name, a deletion that raises is logged at error level and not raised,
  and a deletion that succeeds is logged at info level. After a deletion that succeeds,
  \<open>get\<close> of the name returns the empty table when the remote signals the missing object
  with a \<open>ClientError\<close>.
\<close>

theorem delete_behaviour:
  "(list_objects remote s (generate_s3_uri st name) = Inl e
      \<longrightarrow> delete remote st s name = ([], Inl e, s))
   \<and> (list_objects remote s (generate_s3_uri st name) = Inr []
      \<longrightarrow> delete remote st s name
            = ([(WARNING, ''Data '' @ quoted name @ '' does not exist in S3. Cannot delete.'')],
               Inr (), s))
   \<and> (list_objects remote s (generate_s3_uri st name) = Inr objs \<and> objs \<noteq> []
        \<and> delete_objects remote s (generate_s3_uri st name) = (Inl e, s')
      \<longrightarrow> delete remote st s name
            = ([(ERROR, ''Failed to delete data '' @ quoted name @ '': '' @ exn_str remote e)],
               Inr (), s'))
   \<and> (list_objects remote s (generate_s3_uri st name) = Inr objs \<and> objs \<noteq> []
        \<and> delete_objects remote s (generate_s3_uri st name) = (Inr (), s')
      \<longrightarrow> delete remote st s name
            = ([(INFO, ''Data '' @ quoted name @ '' deleted successfully from S3.'')],
               Inr (), s')
          \<and> (read_parquet remote s' (generate_s3_uri st name) = Inl (ClientError r opn)
              \<longrightarrow> get remote st s' name
                    = ([(WARNING, ''Data '' @ quoted name @ '' not found in S3.'')],
                       Inr empty_dataframe)))"
  by (simp add: delete_def get_def)

theorem delete_behaviour_witness:
  "delete (failing_remote access_denied) store0 () ''test_data'' = ([], Inl access_denied, ())
   \<and> delete (memory_remote no_such_key) store0 [] ''test_data''
       = ([(WARNING, ''Data '' @ quoted ''test_data'' @ '' does not exist in S3. Cannot delete.'')],
          Inr (), [])
   \<and> delete (undeletable_remote access_denied) store0
         [(''s3://bucket/df_store/test_data.parquet'', table0)] ''test_data''
       = ([(ERROR, ''Failed to delete data '' @ quoted ''test_data'' @ '': GetObject'')],
          Inr (), [(''s3://bucket/df_store/test_data.parquet'', table0)])
   \<and> delete (memory_remote no_such_key) store0
         [(''s3://bucket/df_store/test_data.parquet'', table0)] ''test_data''
       = ([(INFO, ''Data '' @ quoted ''test_data'' @ '' deleted successfully from S3.'')],
          Inr (), [])
   \<and> get (memory_remote no_such_key) store0 [] ''test_data''
       = ([(WARNING, ''Data '' @ quoted ''test_data'' @ '' not found in S3.'')],
          Inr empty_dataframe)"
proof -
  let ?u = "''s3://bucket/df_store/test_data.parquet''"
  have l1: "list_objects (failing_remote access_denied) () (generate_s3_uri store0 ''test_data'')
              = Inl access_denied"
    by (simp add: failing_remote_def)
  have l2: "list_objects (memory_remote no_such_key) [] (generate_s3_uri store0 ''test_data'')
              = Inr []"
    by (simp add: memory_remote_def)
  have l3: "list_objects (undeletable_remote access_denied) [(?u, table0)]
              (generate_s3_uri store0 ''test_data'') = Inr [?u]"
    by (simp add: undeletable_remote_def memory_remote_def uri_test_data)
  have d3: "delete_objects (undeletable_remote access_denied) [(?u, table0)]
              (generate_s3_uri store0 ''test_data'') = (Inl access_denied, [(?u, table0)])"
    by (simp add: undeletable_remote_def)
  have m3: "exn_str (undeletable_remote access_denied) access_denied = ''GetObject''"
    by (simp add: undeletable_remote_def memory_remote_def access_denied_def message_of_def)
  have l4: "list_objects (memory_remote no_such_key) [(?u, table0)]
              (generate_s3_uri store0 ''test_data'') = Inr [?u]"
    by (simp add: memory_remote_def uri_test_data)
  have d4: "delete_objects (memory_remote no_such_key) [(?u, table0)]
              (generate_s3_uri store0 ''test_data'') = (Inr (), [])"
    by (simp add: memory_remote_def uri_test_data)
  have r4: "read_parquet (memory_remote no_such_key) [] (generate_s3_uri store0 ''test_data'')
              = Inl (ClientError [(''Error'', [(''Code'', ''NoSuchKey'')])] ''GetObject'')"
    by (simp add: memory_remote_def no_such_key_def)
  have a: "delete (failing_remote access_denied) store0 () ''test_data''
             = ([], Inl access_denied, ())"
    using delete_behaviour
      [of "failing_remote access_denied" "()" store0 "''test_data''" access_denied] l1
    by simp
  have b: "delete (memory_remote no_such_key) store0 [] ''test_data''
       = ([(WARNING, ''Data '' @ quoted ''test_data'' @ '' does not exist in S3. Cannot delete.'')],
          Inr (), [])"
    using delete_behaviour [of "memory_remote no_such_key" "[]" store0 "''test_data''"] l2
    by simp
  have c: "delete (undeletable_remote access_denied) store0 [(?u, table0)] ''test_data''
       = ([(ERROR, ''Failed to delete data '' @ quoted ''test_data'' @ '': GetObject'')],
          Inr (), [(?u, table0)])"
    using delete_behaviour
      [of "undeletable_remote access_denied" "[(?u, table0)]" store0 "''test_data''"
          access_denied "[?u]" "[(?u, table0)]"] l3 d3 m3
    by simp
  have d: "delete (memory_remote no_such_key) store0 [(?u, table0)] ''test_data''
       = ([(INFO, ''Data '' @ quoted ''test_data'' @ '' deleted successfully from S3.'')],
          Inr (), [])
     \<and> get (memory_remote no_such_key) store0 [] ''test_data''
       = ([(WARNING, ''Data '' @ quoted ''test_data'' @ '' not found in S3.'')],
          Inr empty_dataframe)"
    using delete_behaviour
      [of "memory_remote no_such_key" "[(?u, table0)]" store0 "''test_data''" _
          "[?u]" "[]" "[(''Error'', [(''Code'', ''NoSuchKey'')])]" "''GetObject''"] l4 d4 r4
    by simp
  from a b c d show ?thesis by blast
qed

text \<open>
  C7 as stated fails twice. When the existence listing raises (here with
  \<open>AccessDenied\<close>), \<open>delete\<close> raises that error. And on a remote that signals a missing
  object with \<open>NoFilesFound\<close>, as awswrangler does, \<open>delete\<close> of a stored name removes
  it and the \<open>get\<close> that follows raises instead of returning the empty table.
\<close>

theorem delete_never_raises_counterexample:
  "delete (failing_remote access_denied) store0 () ''test_data''
     = ([], Inl access_denied, ())
   \<and> delete (memory_remote no_files_found) store0
         [(''s3://bucket/df_store/test_data.parquet'', table0)] ''test_data''
       = ([(INFO, ''Data '' @ quoted ''test_data'' @ '' deleted successfully from S3.'')],
          Inr (), [])
   \<and> get (memory_remote no_files_found) store0 [] ''test_data''
       = ([], Inl (NoFilesFound ''No files Found on: s3://bucket/df_store/test_data.parquet.''))"
  by (simp add: delete_def get_def failing_remote_def memory_remote_def uri_test_data
      no_files_found_def)

section \<open>Names and keys\<close>

text \<open>
  C3, as the code has it. \<open>details\<close> puts a slash where it takes the prefix off a key,
  and the URI of a name has its double slashes replaced: for a name that begins with a
  slash, has no double slash and contains neither the prefix nor \<open>.parquet\<close> (and a bucket
  with no slash in it), the name \<open>details\<close> computes from the key of the name's URI is
  the name itself, and the URI \<open>details\<close> computes from that key is the name's URI.
\<close>

theorem name_round_trip:
  assumes "prefix st = ''df_store/''" "CHR ''/'' \<notin> set (df_bucket st)"
    and "startswith name ''/''" "\<not> contains name ''//''"
    and "\<not> contains name (prefix st)" "\<not> contains name ''.parquet''"
  shows "details_name st (storage_key st name) = name
         \<and> s3_file st (storage_key st name) = generate_s3_uri st name"
proof -
  from assms(3) obtain r where n: "name = CHR ''/'' # r"
    by (auto simp: startswith_iff)
  have uri: "generate_s3_uri st name
               = (''s3://'' @ df_bucket st @ ''/'') @ ''df_store/'' @ r @ ''.parquet''"
    using uri_of_slash_name [OF assms(1,2), of r] assms(4) n by simp
  have key: "storage_key st name = ''df_store/'' @ r @ ''.parquet''"
    unfolding storage_key_def uri by simp
  have "details_name st (''df_store/'' @ r @ ''.parquet'') = name"
    using name_of_key [OF assms(1), of r] assms(5,6) n by (simp add: assms(1))
  moreover have "s3_file st (''df_store/'' @ r @ ''.parquet'') = generate_s3_uri st name"
    by (simp add: s3_file_def uri)
  ultimately show ?thesis by (simp add: key)
qed

theorem name_round_trip_witness:
  "details_name store0 (storage_key store0 ''/tests/test_data'') = ''/tests/test_data''
   \<and> s3_file store0 (storage_key store0 ''/tests/test_data'')
       = generate_s3_uri store0 ''/tests/test_data''"
proof -
  have "prefix store0 = ''df_store/''" "CHR ''/'' \<notin> set (df_bucket store0)"
    "startswith ''/tests/test_data'' ''/''" "\<not> contains ''/tests/test_data'' ''//''"
    "\<not> contains ''/tests/test_data'' (prefix store0)"
    "\<not> contains ''/tests/test_data'' ''.parquet''"
    by (simp_all add: store0_def)
  from name_round_trip [OF this] show ?thesis .
qed

text \<open>
  C3 as stated fails: \<open>test_data\<close> contains neither the prefix nor the extension, and the
  name \<open>details\<close> computes from its key is \<open>/test_data\<close>.
\<close>

theorem name_round_trip_counterexample:
  "\<not> contains ''test_data'' (prefix store0) \<and> \<not> contains ''test_data'' ''.parquet''
   \<and> storage_key store0 ''test_data'' = ''df_store/test_data.parquet''
   \<and> details_name store0 (storage_key store0 ''test_data'') = ''/test_data''"
proof -
  have b: "df_bucket store0 = ''bucket''" and p: "prefix store0 = ''df_store/''"
    by (simp_all add: store0_def)
  have k: "storage_key store0 ''test_data'' = ''df_store/test_data.parquet''"
    by (simp add: storage_key_def uri_test_data b)
  have "details_name store0 ''df_store/test_data.parquet'' = ''/test_data''"
    by (simp add: details_name_def py_split_def py_replace_def p)
  with k show ?thesis by (simp add: p)
qed

end
